theory Spec2Isabelle
  imports Complex_Main "HOL-Library.Char_ord" "HOL-Library.List_Lexorder"
    "HOL-Library.Product_Lexorder"
begin

section \<open>Python text\<close>

text \<open>
  Text is modelled as ASCII \<open>string\<close>. On ASCII text, NFKD normalisation is the identity
  and no character is a combining mark, so \<open>normalize_column_name\<close> below only lower-cases
  and keeps letters and digits. Column headers are text, as in the data model of the
  specification.
\<close>

datatype py_error = ValueError | TypeError | AttributeError | ReadError

definition ascii_upper :: string where
  "ascii_upper = ''ABCDEFGHIJKLMNOPQRSTUVWXYZ''"

definition ascii_lower :: string where
  "ascii_lower = ''abcdefghijklmnopqrstuvwxyz''"

definition ascii_digits :: string where
  "ascii_digits = ''0123456789''"

definition isspace :: "char \<Rightarrow> bool" where
  "isspace c = (c \<in> set [CHR '' '', CHR 0x09, CHR 0x0A, CHR 0x0B, CHR 0x0C, CHR 0x0D,
                           CHR 0x1C, CHR 0x1D, CHR 0x1E, CHR 0x1F])"

definition isdigit :: "char \<Rightarrow> bool" where
  "isdigit c = (c \<in> set ascii_digits)"

definition isalnum :: "char \<Rightarrow> bool" where
  "isalnum c = (c \<in> set (ascii_lower @ ascii_upper @ ascii_digits))"

definition lower_char :: "char \<Rightarrow> char" where
  "lower_char c = (case map_of (zip ascii_upper ascii_lower) c of Some d \<Rightarrow> d | None \<Rightarrow> c)"

definition upper_char :: "char \<Rightarrow> char" where
  "upper_char c = (case map_of (zip ascii_lower ascii_upper) c of Some d \<Rightarrow> d | None \<Rightarrow> c)"

definition lower :: "string \<Rightarrow> string" where
  "lower s = map lower_char s"

definition upper :: "string \<Rightarrow> string" where
  "upper s = map upper_char s"

text \<open>\<open>s.strip()\<close>: leading and trailing whitespace removed.\<close>

definition strip :: "string \<Rightarrow> string" where
  "strip s = rev (dropWhile isspace (rev (dropWhile isspace s)))"

text \<open>\<open>s.startswith(p)\<close> and the substring test \<open>sub in s\<close>.\<close>

fun startswith :: "string \<Rightarrow> string \<Rightarrow> bool" where
  "startswith s [] = True"
| "startswith [] (p # ps) = False"
| "startswith (c # cs) (p # ps) = (c = p \<and> startswith cs ps)"

fun contains :: "string \<Rightarrow> string \<Rightarrow> bool" where
  "contains sub [] = (sub = [])"
| "contains sub (c # cs) = (startswith (c # cs) sub \<or> contains sub cs)"

text \<open>\<open>sep.join(parts)\<close>.\<close>

fun join :: "string \<Rightarrow> string list \<Rightarrow> string" where
  "join sep [] = []"
| "join sep [p] = p"
| "join sep (p # q # ps) = p @ sep @ join sep (q # ps)"

text \<open>
  \<open>s.split(sep)\<close> for a non-empty separator: the text is scanned from the left, every
  occurrence of the separator found ends a piece and the scan resumes behind it.
  Python raises \<open>ValueError\<close> on the empty separator.
\<close>

function split_scan :: "string \<Rightarrow> string \<Rightarrow> string \<Rightarrow> string list" where
  "split_scan sep acc s =
     (if s = [] then [rev acc]
      else if sep \<noteq> [] \<and> startswith s sep then rev acc # split_scan sep [] (drop (length sep) s)
      else split_scan sep (hd s # acc) (tl s))"
  by pat_completeness auto
termination
  by (relation "measure (\<lambda>(sep, acc, s). length s)") auto

declare split_scan.simps [simp del]

definition split :: "string \<Rightarrow> string \<Rightarrow> py_error + string list" where
  "split s sep = (if sep = [] then Inl ValueError else Inr (split_scan sep [] s))"

text \<open>Decimal text of a natural number, and the same padded with zeros to a width.\<close>

definition digit_char :: "nat \<Rightarrow> char" where
  "digit_char n = ascii_digits ! (n mod 10)"

function str_nat :: "nat \<Rightarrow> string" where
  "str_nat n = (if n < 10 then [digit_char n] else str_nat (n div 10) @ [digit_char (n mod 10)])"
  by pat_completeness auto
termination
  by (relation "measure id") auto

declare str_nat.simps [simp del]

definition str_int :: "int \<Rightarrow> string" where
  "str_int i = (if i < 0 then CHR ''-'' # str_nat (nat (- i)) else str_nat (nat i))"

definition zpad :: "nat \<Rightarrow> nat \<Rightarrow> string" where
  "zpad w n = replicate (w - length (str_nat n)) CHR ''0'' @ str_nat n"

section \<open>Date-times and cells\<close>

text \<open>
  A naive \<open>datetime\<close> has the fields of Python's class; a \<open>timestamp\<close> is what a parsed cell
  holds: a naive date-time, or one that carries a UTC offset (in minutes). The bounds of
  the analyzer are naive: both callers build them from a calendar date.
\<close>

record datetime =
  year :: nat
  month :: nat
  day :: nat
  hour :: nat
  minute :: nat
  second :: nat
  microsecond :: nat

definition dt_key :: "datetime \<Rightarrow> nat \<times> nat \<times> nat \<times> nat \<times> nat \<times> nat \<times> nat" where
  "dt_key d = (year d, month d, day d, hour d, minute d, second d, microsecond d)"

definition dt_le :: "datetime \<Rightarrow> datetime \<Rightarrow> bool" where
  "dt_le a b = (dt_key a \<le> dt_key b)"

datatype timestamp = Naive datetime | Aware datetime int

datatype cell = Null | Txt string | Num int | TS timestamp

text \<open>\<open>pd.isna\<close> on a scalar: NaN, None and NaT are the one value \<open>Null\<close>.\<close>

definition isna :: "cell \<Rightarrow> bool" where
  "isna v = (v = Null)"

definition str_datetime :: "datetime \<Rightarrow> string" where
  "str_datetime d =
     zpad 4 (year d) @ ''-'' @ zpad 2 (month d) @ ''-'' @ zpad 2 (day d) @ '' '' @
     zpad 2 (hour d) @ '':'' @ zpad 2 (minute d) @ '':'' @ zpad 2 (second d) @
     (if microsecond d = 0 then [] else ''.'' @ zpad 6 (microsecond d))"

definition str_offset :: "int \<Rightarrow> string" where
  "str_offset m =
     (if m < 0 then ''-'' else ''+'') @ zpad 2 (nat \<bar>m\<bar> div 60) @ '':'' @ zpad 2 (nat \<bar>m\<bar> mod 60)"

fun str_timestamp :: "timestamp \<Rightarrow> string" where
  "str_timestamp (Naive d) = str_datetime d"
| "str_timestamp (Aware d m) = str_datetime d @ str_offset m"

text \<open>\<open>str(value)\<close> of a cell. Floating-point cells are not modelled.\<close>

fun py_str :: "cell \<Rightarrow> string" where
  "py_str Null = ''nan''"
| "py_str (Txt s) = s"
| "py_str (Num i) = str_int i"
| "py_str (TS t) = str_timestamp t"

section \<open>Data frames\<close>

text \<open>
  A frame is its header (column names with the column's dtype) and its rows. A row that
  is shorter than the header reads as \<open>Null\<close> in the missing places, as a sheet read by
  pandas is padded. Every column name that is looked up in a row below has been taken
  from \<open>columns df\<close>.
\<close>

datatype dtype = Object | Datetime64 | Numeric

record dataframe =
  header :: "(string \<times> dtype) list"
  rows :: "cell list list"

definition columns :: "dataframe \<Rightarrow> string list" where
  "columns df = map fst (header df)"

definition df_empty :: "dataframe \<Rightarrow> bool" where
  "df_empty df = (header df = [] \<or> rows df = [])"

fun index_of :: "string \<Rightarrow> string list \<Rightarrow> nat option" where
  "index_of c [] = None"
| "index_of c (x # xs) = (if x = c then Some 0 else map_option Suc (index_of c xs))"

definition cell_at :: "cell list \<Rightarrow> nat \<Rightarrow> cell" where
  "cell_at row i = (if i < length row then row ! i else Null)"

definition row_get :: "dataframe \<Rightarrow> cell list \<Rightarrow> string \<Rightarrow> cell" where
  "row_get df row c = (case index_of c (columns df) of None \<Rightarrow> Null | Some i \<Rightarrow> cell_at row i)"

definition column_values :: "dataframe \<Rightarrow> string \<Rightarrow> cell list" where
  "column_values df c = map (\<lambda>row. row_get df row c) (rows df)"

definition dtype_of :: "dataframe \<Rightarrow> string \<Rightarrow> dtype" where
  "dtype_of df c = (case map_of (header df) c of None \<Rightarrow> Object | Some t \<Rightarrow> t)"

definition dropna :: "cell list \<Rightarrow> cell list" where
  "dropna vs = filter (\<lambda>v. \<not> isna v) vs"

section \<open>Counters\<close>

text \<open>
  A \<open>Counter\<close> is a dictionary from keys to counts that keeps the order in which keys
  were first inserted. \<open>counter_add c k n\<close> is \<open>c[k] += n\<close>; a missing key reads as 0.
\<close>

type_synonym counter = "(string \<times> nat) list"

fun counter_add :: "counter \<Rightarrow> string \<Rightarrow> nat \<Rightarrow> counter" where
  "counter_add [] k n = [(k, n)]"
| "counter_add ((k', m) # c) k n =
     (if k' = k then (k', m + n) # c else (k', m) # counter_add c k n)"

definition counter_get :: "counter \<Rightarrow> string \<Rightarrow> nat" where
  "counter_get c k = (case map_of c k of None \<Rightarrow> 0 | Some n \<Rightarrow> n)"

text \<open>\<open>Counter(iterable)\<close> and \<open>c.update(d)\<close> for a counter \<open>d\<close>.\<close>

definition Counter :: "string list \<Rightarrow> counter" where
  "Counter xs = foldl (\<lambda>c k. counter_add c k 1) [] xs"

definition counter_update :: "counter \<Rightarrow> counter \<Rightarrow> counter" where
  "counter_update c d = foldl (\<lambda>c (k, n). counter_add c k n) c d"

section \<open>Column Matcher\<close>

definition normalize_column_name :: "string \<Rightarrow> string" where
  "normalize_column_name name = filter isalnum (lower name)"

definition find_matching_columns :: "dataframe \<Rightarrow> string \<Rightarrow> string list" where
  "find_matching_columns df target_name =
     (let norm_target = normalize_column_name target_name
      in filter (\<lambda>column.
           let norm_column = normalize_column_name column
           in norm_column \<noteq> [] \<and>
              (norm_target = norm_column
               \<or> contains norm_target norm_column
               \<or> contains norm_column norm_target))
         (columns df))"

text \<open>The loop over target names shared by the identifiers: the first target with a match wins.\<close>

fun first_target_match :: "dataframe \<Rightarrow> string list \<Rightarrow> string option" where
  "first_target_match df [] = None"
| "first_target_match df (target # targets) =
     (case find_matching_columns df target of
        m # _ \<Rightarrow> Some m
      | [] \<Rightarrow> first_target_match df targets)"

definition any_keyword :: "string list \<Rightarrow> string \<Rightarrow> bool" where
  "any_keyword keywords norm_col = list_ex (\<lambda>keyword. contains keyword norm_col) keywords"

definition INSTALLER_COLUMNS :: "string list" where
  "INSTALLER_COLUMNS =
     [''agente_instalador'', ''instalador'', ''tecnico_instalador'',
      ''tecnico'', ''agenteinstalador'', ''instalador_agente'']"

definition identify_installer_column :: "dataframe \<Rightarrow> string option" where
  "identify_installer_column df =
     (case first_target_match df INSTALLER_COLUMNS of
        Some c \<Rightarrow> Some c
      | None \<Rightarrow>
          List.find (\<lambda>col. any_keyword [''instalador'', ''tecnico'', ''agente'']
                             (normalize_column_name col))
            (columns df))"

section \<open>Combined routes\<close>

record route_record =
  categoria_general :: string
  categoria_especifica :: string
  subtipo :: string
  ruta_completa :: string
  agente_instalador :: string

definition route_sep :: string where
  "route_sep = '' | ''"

definition unassigned :: string where
  "unassigned = ''Sin asignar''"

text \<open>The loop over \<open>df.columns\<close> that sorts the columns into general, specific and subtype.\<close>

definition classify_step ::
  "string option \<times> string list \<times> string list \<Rightarrow> string \<Rightarrow> string option \<times> string list \<times> string list"
where
  "classify_step st col =
     (case st of (g, es, ss) \<Rightarrow>
        let col_lower = lower col
        in if col_lower = ''categoria_general'' then (Some col, es, ss)
           else if contains ''categoria_especifica'' col_lower then (g, es @ [col], ss)
           else if contains ''subtipo_categoria'' col_lower then (g, es, ss @ [col])
           else (g, es, ss))"

definition classify_columns :: "dataframe \<Rightarrow> string option \<times> string list \<times> string list" where
  "classify_columns df = foldl classify_step (None, [], []) (columns df)"

definition installer_of :: "dataframe \<Rightarrow> string option \<Rightarrow> cell list \<Rightarrow> string" where
  "installer_of df installer_column row =
     (case installer_column of
        None \<Rightarrow> unassigned
      | Some ic \<Rightarrow>
          if ic \<noteq> [] \<and> ic \<in> set (columns df)
          then (let raw_installer = row_get df row ic
                in if isna raw_installer \<or> strip (py_str raw_installer) = [] then unassigned
                   else strip (py_str raw_installer))
          else unassigned)"

text \<open>The inner loops with \<open>break\<close>: the first non-null value among the given columns.\<close>

fun first_value :: "dataframe \<Rightarrow> cell list \<Rightarrow> string list \<Rightarrow> string list" where
  "first_value df row [] = []"
| "first_value df row (c # cs) =
     (if \<not> isna (row_get df row c) then [strip (py_str (row_get df row c))]
      else first_value df row cs)"

definition combined_parts ::
  "dataframe \<Rightarrow> string \<Rightarrow> string list \<Rightarrow> string list \<Rightarrow> cell list \<Rightarrow> string list"
where
  "combined_parts df g es ss row =
     [strip (py_str (row_get df row g))] @ first_value df row es @ first_value df row ss"

definition make_record :: "string list \<Rightarrow> string \<Rightarrow> route_record" where
  "make_record parts installer_value =
     \<lparr> categoria_general = parts ! 0,
       categoria_especifica = (if length parts > 1 then parts ! 1 else []),
       subtipo = (if length parts > 2 then parts ! 2 else []),
       ruta_completa = join route_sep parts,
       agente_instalador = installer_value \<rparr>"

text \<open>
  The body of the loop over the rows: \<open>None\<close> when the row is skipped (null general
  category, or nothing beyond the general category), else the record appended.
\<close>

definition row_record ::
  "dataframe \<Rightarrow> string \<Rightarrow> string list \<Rightarrow> string list \<Rightarrow> string option \<Rightarrow> cell list
     \<Rightarrow> route_record option"
where
  "row_record df g es ss ic row =
     (if isna (row_get df row g) then None
      else let parts = combined_parts df g es ss row;
               installer_value = installer_of df ic row
           in if length parts > 1 then Some (make_record parts installer_value) else None)"

fun combined_loop ::
  "dataframe \<Rightarrow> string \<Rightarrow> string list \<Rightarrow> string list \<Rightarrow> string option \<Rightarrow> cell list list
     \<Rightarrow> counter \<times> route_record list \<Rightarrow> counter \<times> route_record list"
where
  "combined_loop df g es ss ic [] acc = acc"
| "combined_loop df g es ss ic (row # rest) (combined_counts, combined_details) =
     (case row_record df g es ss ic row of
        None \<Rightarrow> combined_loop df g es ss ic rest (combined_counts, combined_details)
      | Some r \<Rightarrow>
          combined_loop df g es ss ic rest
            (counter_add combined_counts (ruta_completa r) 1, combined_details @ [r]))"

definition analyze_combined_categories :: "dataframe \<Rightarrow> counter \<times> route_record list" where
  "analyze_combined_categories df =
     (case classify_columns df of (g, es, ss) \<Rightarrow>
        let installer_column = identify_installer_column df
        in case g of
             None \<Rightarrow> ([], [])
           | Some gc \<Rightarrow> combined_loop df gc es ss installer_column (rows df) ([], []))"

text \<open>\<open>s.endswith(suffix)\<close>, and the condition under which the parts of a route can be read
  back from the joined text: no part contains the separator, and no part that is followed
  by a separator ends with a blank and a bar.\<close>

definition endswith :: "string \<Rightarrow> string \<Rightarrow> bool" where
  "endswith s suffix = (length suffix \<le> length s \<and> drop (length s - length suffix) s = suffix)"

definition parts_separable :: "string list \<Rightarrow> bool" where
  "parts_separable parts =
     ((\<forall>p\<in>set parts. \<not> contains route_sep p) \<and>
      (\<forall>p\<in>set (butlast parts). \<not> endswith p '' |''))"


subsection \<open>Example frames for the combined routes\<close>

definition df_sub :: dataframe where
  "df_sub = \<lparr> header = [(''categoria_general'', Object), (''categoria_especifica'', Object),
                          (''subtipo_categoria'', Object)],
              rows = [[Txt ''Red'', Null, Txt '' Fibra '']] \<rparr>"

definition df_route :: dataframe where
  "df_route = \<lparr> header = [(''categoria_general'', Object), (''categoria_especifica'', Object),
                            (''subtipo_categoria'', Object)],
                rows = [[Txt ''Red'', Txt ''Slow'', Null]] \<rparr>"

definition r_route :: route_record where
  "r_route = \<lparr> categoria_general = ''Red'', categoria_especifica = ''Slow'', subtipo = [],
               ruta_completa = ''Red | Slow'', agente_instalador = ''Sin asignar'' \<rparr>"

definition df_bar :: dataframe where
  "df_bar = \<lparr> header = [(''categoria_general'', Object), (''categoria_especifica'', Object)],
              rows = [[Txt ''A | B'', Txt ''C'']] \<rparr>"

section \<open>Verified properties\<close>

subsection \<open>Splitting a joined route\<close>

lemma startswith_take: "startswith s p = (take (length p) s = p)"
  by (induction s p rule: startswith.induct) auto

lemma contains_iff: "contains sub s = (\<exists>i\<le>length s. startswith (drop i s) sub)"
proof (induction s)
  case Nil
  then show ?case by (cases sub) auto
next
  case (Cons c cs)
  show ?case
  proof
    assume "contains sub (c # cs)"
    then consider "startswith (c # cs) sub" | "contains sub cs" by auto
    then show "\<exists>i\<le>length (c # cs). startswith (drop i (c # cs)) sub"
    proof cases
      case 1
      then have "startswith (drop 0 (c # cs)) sub" by simp
      then show ?thesis by blast
    next
      case 2
      with Cons obtain i where "i \<le> length cs" "startswith (drop i cs) sub" by auto
      then have "Suc i \<le> length (c # cs) \<and> startswith (drop (Suc i) (c # cs)) sub" by simp
      then show ?thesis by blast
    qed
  next
    assume "\<exists>i\<le>length (c # cs). startswith (drop i (c # cs)) sub"
    then obtain i where i: "i \<le> length (c # cs)" "startswith (drop i (c # cs)) sub" by auto
    show "contains sub (c # cs)"
    proof (cases i)
      case 0
      with i show ?thesis by simp
    next
      case (Suc j)
      with i have "j \<le> length cs" "startswith (drop j cs) sub" by auto
      with Cons show ?thesis by auto
    qed
  qed
qed

lemma split_scan_Nil: "split_scan sep acc [] = [rev acc]"
  by (simp add: split_scan.simps)

lemma split_scan_skip:
  "\<forall>i<length p. \<not> startswith (drop i p @ rest) sep \<Longrightarrow>
   split_scan sep acc (p @ rest) = split_scan sep (rev p @ acc) rest"
proof (induction p arbitrary: acc)
  case Nil
  then show ?case by simp
next
  case (Cons c cs)
  have 0: "\<not> startswith ((c # cs) @ rest) sep" using Cons.prems by force
  have "\<forall>i<length cs. \<not> startswith (drop i cs @ rest) sep"
  proof (intro allI impI)
    fix i assume "i < length cs"
    then have "Suc i < length (c # cs)" by simp
    with Cons.prems have "\<not> startswith (drop (Suc i) (c # cs) @ rest) sep" by blast
    then show "\<not> startswith (drop i cs @ rest) sep" by simp
  qed
  then have IH: "split_scan sep (c # acc) (cs @ rest) = split_scan sep (rev cs @ c # acc) rest"
    using Cons.IH by blast
  have "split_scan sep acc ((c # cs) @ rest) = split_scan sep (c # acc) (cs @ rest)"
    using 0 by (subst split_scan.simps) simp
  with IH show ?case by simp
qed

lemma split_scan_sep:
  "sep \<noteq> [] \<Longrightarrow> split_scan sep acc (sep @ s) = rev acc # split_scan sep [] s"
  by (subst split_scan.simps) (simp add: startswith_take)

lemma last_part_free:
  assumes "\<not> contains route_sep p"
  shows "\<forall>i<length p. \<not> startswith (drop i p @ []) route_sep"
  using assms by (auto simp: contains_iff)

lemma inner_part_free:
  assumes nc: "\<not> contains route_sep p" and ne: "\<not> endswith p '' |''"
  shows "\<forall>i<length p. \<not> startswith (drop i p @ route_sep @ tl0) route_sep"
proof (intro allI impI notI)
  fix i assume i: "i < length p" and st: "startswith (drop i p @ route_sep @ tl0) route_sep"
  define q where "q = drop i p"
  have qne: "q \<noteq> []" using i by (simp add: q_def)
  have nst: "\<not> startswith q route_sep" using nc i by (auto simp: contains_iff q_def)
  from st have t: "startswith (q @ route_sep @ tl0) route_sep"
    by (simp add: q_def)
  consider a where "q = [a]" | a b where "q = [a, b]" | a b c q' where "q = a # b # c # q'"
    using qne by (cases q rule: list.exhaust; cases "tl q"; cases "tl (tl q)") auto
  then show False
  proof cases
    case 1
    with t show False by (simp add: route_sep_def)
  next
    case 2
    with t have "q = '' |''" by (simp add: route_sep_def)
    then have "endswith p '' |''"
      unfolding endswith_def q_def using i
      by (metis add_diff_cancel_right' append_take_drop_id diff_diff_cancel length_append length_drop less_imp_le_nat diff_le_self)
    with ne show False by simp
  next
    case 3
    with t have "startswith q route_sep" by (simp add: route_sep_def)
    with nst show False by simp
  qed
qed

lemma split_join_roundtrip:
  "parts \<noteq> [] \<Longrightarrow> parts_separable parts \<Longrightarrow> split_scan route_sep [] (join route_sep parts) = parts"
proof (induction route_sep parts rule: join.induct)
  case (1)
  then show ?case by simp
next
  case (2 p)
  then have "\<not> contains route_sep p" by (simp add: parts_separable_def)
  from split_scan_skip [OF last_part_free [OF this], of "[]"]
  show ?case by (simp add: split_scan_Nil)
next
  case (3 p q ps)
  from 3(3) have a: "\<not> contains route_sep p" "\<not> endswith p '' |''"
    and b: "parts_separable (q # ps)"
    by (auto simp: parts_separable_def)
  have ne: "route_sep \<noteq> []" by (simp add: route_sep_def)
  have "split_scan route_sep [] (p @ route_sep @ join route_sep (q # ps))
        = split_scan route_sep (rev p @ []) (route_sep @ join route_sep (q # ps))"
    by (rule split_scan_skip [OF inner_part_free [OF a]])
  also have "\<dots> = p # split_scan route_sep [] (join route_sep (q # ps))"
    using split_scan_sep [OF ne] by simp
  also have "\<dots> = p # q # ps" using 3(1) b by simp
  finally show ?case by simp
qed


subsection \<open>Combined routes\<close>

lemma combined_loop_details:
  "snd (combined_loop df g es ss ic rs (c, d)) = d @ List.map_filter (row_record df g es ss ic) rs"
  by (induction rs arbitrary: c d) (auto simp: List.map_filter_simps split: option.splits)

lemma classify_step_eq:
  "classify_step (g, es, ss) c =
     (if lower c = ''categoria_general'' then (Some c, es, ss)
      else if contains ''categoria_especifica'' (lower c) then (g, es @ [c], ss)
      else if contains ''subtipo_categoria'' (lower c) then (g, es, ss @ [c])
      else (g, es, ss))"
  by (simp add: classify_step_def Let_def)

lemma classify_foldl:
  "foldl classify_step (g, es, ss) cols =
     (case filter (\<lambda>c. lower c = ''categoria_general'') cols of [] \<Rightarrow> g | xs \<Rightarrow> Some (last xs),
      es @ filter (\<lambda>c. lower c \<noteq> ''categoria_general'' \<and> contains ''categoria_especifica'' (lower c)) cols,
      ss @ filter (\<lambda>c. lower c \<noteq> ''categoria_general'' \<and> \<not> contains ''categoria_especifica'' (lower c)
                        \<and> contains ''subtipo_categoria'' (lower c)) cols)"
proof (induction cols arbitrary: g es ss)
  case Nil
  then show ?case by simp
next
  case (Cons c cs)
  show ?case
    unfolding foldl_Cons classify_step_eq
    by (simp add: Cons.IH split: list.splits)
qed

lemma classify_columns_sets:
  assumes "classify_columns df = (g, es, ss)"
  shows "es = filter (\<lambda>c. lower c \<noteq> ''categoria_general'' \<and> contains ''categoria_especifica'' (lower c)) (columns df)"
    and "ss = filter (\<lambda>c. lower c \<noteq> ''categoria_general'' \<and> \<not> contains ''categoria_especifica'' (lower c)
                        \<and> contains ''subtipo_categoria'' (lower c)) (columns df)"
  using assms by (simp_all add: classify_columns_def classify_foldl)

lemma general_not_subtype: "\<not> contains ''subtipo_categoria'' ''categoria_general''"
  by simp

lemma first_value_all_null:
  "\<forall>c\<in>set cs. isna (row_get df row c) \<Longrightarrow> first_value df row cs = []"
  by (induction cs) auto

lemma first_value_some:
  "\<exists>c\<in>set cs. \<not> isna (row_get df row c) \<Longrightarrow>
   \<exists>c\<in>set cs. \<not> isna (row_get df row c) \<and> first_value df row cs = [strip (py_str (row_get df row c))]"
  by (induction cs) auto

lemma first_value_length: "length (first_value df row cs) \<le> 1"
  by (induction cs) auto

text \<open>
  C10. In a row whose general-category cell is non-null, where some subtype column (name
  containing \<open>subtipo_categoria\<close>) has a non-null value and every specific-category column
  (name containing \<open>categoria_especifica\<close>) is null, the record emitted for the row by
  \<open>analyze_combined_categories\<close> holds the stripped subtype value in the field
  \<open>categoria_especifica\<close> and the empty string in \<open>subtipo\<close>: the fields are filled by
  position in the list of parts.
\<close>

theorem subtype_stored_in_specific_field:
  assumes cl: "classify_columns df = (Some g, es, ss)"
    and row: "row \<in> set (rows df)"
    and gen: "\<not> isna (row_get df row g)"
    and esp: "\<forall>c\<in>set (columns df). contains ''categoria_especifica'' (lower c) \<longrightarrow> isna (row_get df row c)"
    and sub: "c \<in> set (columns df)" "contains ''subtipo_categoria'' (lower c)" "\<not> isna (row_get df row c)"
  shows "\<exists>r c'. row_record df g es ss (identify_installer_column df) row = Some r
           \<and> r \<in> set (snd (analyze_combined_categories df))
           \<and> c' \<in> set (columns df) \<and> contains ''subtipo_categoria'' (lower c')
           \<and> \<not> isna (row_get df row c')
           \<and> categoria_general r = strip (py_str (row_get df row g))
           \<and> categoria_especifica r = strip (py_str (row_get df row c'))
           \<and> subtipo r = []"
proof -
  note sets = classify_columns_sets [OF cl]
  have e0: "first_value df row es = []"
    by (rule first_value_all_null) (use esp sets(1) in auto)
  have "lower c \<noteq> ''categoria_general''"
    using sub(2) general_not_subtype by metis
  moreover have "\<not> contains ''categoria_especifica'' (lower c)"
    using esp sub(1,3) by blast
  ultimately have "c \<in> set ss" using sub sets(2) by simp
  then have "\<exists>c\<in>set ss. \<not> isna (row_get df row c)" using sub(3) by blast
  from first_value_some [OF this] obtain c' where c':
    "c' \<in> set ss" "\<not> isna (row_get df row c')"
    "first_value df row ss = [strip (py_str (row_get df row c'))]" by blast
  have c'col: "c' \<in> set (columns df)" "contains ''subtipo_categoria'' (lower c')"
    using c'(1) sets(2) by auto
  define r where "r = make_record (combined_parts df g es ss row) (installer_of df (identify_installer_column df) row)"
  have parts: "combined_parts df g es ss row
       = [strip (py_str (row_get df row g)), strip (py_str (row_get df row c'))]"
    by (simp add: combined_parts_def e0 c'(3))
  have rr: "row_record df g es ss (identify_installer_column df) row = Some r"
    by (simp add: row_record_def gen parts r_def Let_def)
  have "snd (analyze_combined_categories df)
        = List.map_filter (row_record df g es ss (identify_installer_column df)) (rows df)"
    by (simp add: analyze_combined_categories_def cl Let_def combined_loop_details)
  then have mem: "r \<in> set (snd (analyze_combined_categories df))"
    using rr row by (force simp: List.map_filter_def)
  have "categoria_general r = strip (py_str (row_get df row g))"
    "categoria_especifica r = strip (py_str (row_get df row c'))" "subtipo r = []"
    by (simp_all add: r_def parts make_record_def)
  with rr mem c' c'col show ?thesis by blast
qed

lemma classify_df_sub:
  "classify_columns df_sub = (Some ''categoria_general'', [''categoria_especifica''], [''subtipo_categoria''])"
  by (simp add: classify_columns_def classify_step_def df_sub_def columns_def lower_def lower_char_def
      ascii_upper_def ascii_lower_def)

text \<open>The frame \<open>df_sub\<close> has such a row: general \<open>Red\<close>, no specific value, subtype \<open>Fibra\<close>.\<close>

theorem subtype_stored_in_specific_field_witness:
  "\<exists>r. r \<in> set (snd (analyze_combined_categories df_sub))
       \<and> categoria_general r = ''Red'' \<and> categoria_especifica r = ''Fibra'' \<and> subtipo r = []"
proof -
  let ?row = "[Txt ''Red'', Null, Txt '' Fibra '']"
  have lw: "lower ''categoria_especifica'' = ''categoria_especifica''"
       "lower ''subtipo_categoria'' = ''subtipo_categoria''"
       "lower ''categoria_general'' = ''categoria_general''"
    by (simp_all add: lower_def lower_char_def ascii_upper_def ascii_lower_def)
  have rg: "row_get df_sub ?row ''categoria_general'' = Txt ''Red''"
       "row_get df_sub ?row ''categoria_especifica'' = Null"
       "row_get df_sub ?row ''subtipo_categoria'' = Txt '' Fibra ''"
    by (simp_all add: row_get_def df_sub_def columns_def cell_at_def)
  have h2: "?row \<in> set (rows df_sub)" by (simp add: df_sub_def)
  have h3: "\<not> isna (row_get df_sub ?row ''categoria_general'')" by (simp add: rg isna_def)
  have h4: "\<forall>c\<in>set (columns df_sub). contains ''categoria_especifica'' (lower c)
              \<longrightarrow> isna (row_get df_sub ?row c)"
    by (simp add: df_sub_def columns_def lw) (simp add: rg [unfolded df_sub_def] isna_def)
  have h5: "''subtipo_categoria'' \<in> set (columns df_sub)" by (simp add: df_sub_def columns_def)
  have h6: "contains ''subtipo_categoria'' (lower ''subtipo_categoria'')" by (simp add: lw)
  have h7: "\<not> isna (row_get df_sub ?row ''subtipo_categoria'')" by (simp add: rg isna_def)
  from subtype_stored_in_specific_field [OF classify_df_sub h2 h3 h4 h5 h6 h7]
  obtain r c' where r: "r \<in> set (snd (analyze_combined_categories df_sub))"
    "c' \<in> set (columns df_sub)" "contains ''subtipo_categoria'' (lower c')"
    "categoria_general r = strip (py_str (row_get df_sub ?row ''categoria_general''))"
    "categoria_especifica r = strip (py_str (row_get df_sub ?row c'))" "subtipo r = []"
    by blast
  from r(2,3) have "c' = ''subtipo_categoria''"
    by (auto simp: df_sub_def columns_def lw)
  with r have "categoria_general r = ''Red''" "categoria_especifica r = ''Fibra''"
    by (simp_all add: rg strip_def isspace_def)
  with r show ?thesis by blast
qed

lemma analyze_combined_details:
  "classify_columns df = (Some g, es, ss) \<Longrightarrow>
   snd (analyze_combined_categories df)
     = List.map_filter (row_record df g es ss (identify_installer_column df)) (rows df)"
  by (simp add: analyze_combined_categories_def Let_def combined_loop_details)

lemma analyze_combined_no_general:
  "classify_columns df = (None, es, ss) \<Longrightarrow> analyze_combined_categories df = ([], [])"
  by (simp add: analyze_combined_categories_def Let_def)

text \<open>
  C2, as amended. Every record emitted by \<open>analyze_combined_categories\<close> comes from a row
  with a non-null general category whose list of parts (the general value, then the first
  non-null specific value if any, then the first non-null subtype value if any) has more
  than one element; its \<open>ruta_completa\<close> is the parts joined with the separator, and
  splitting it on the separator gives the parts back provided the parts are separable
  (no part contains the separator and no part before the last ends with a blank and a bar).
\<close>

theorem route_split_recovers_parts:
  assumes "r \<in> set (snd (analyze_combined_categories df))"
  shows "\<exists>g es ss row. classify_columns df = (Some g, es, ss) \<and> row \<in> set (rows df)
           \<and> \<not> isna (row_get df row g)
           \<and> (let parts = combined_parts df g es ss row
              in 1 < length parts
                 \<and> parts = strip (py_str (row_get df row g)) # first_value df row es @ first_value df row ss
                 \<and> r = make_record parts (installer_of df (identify_installer_column df) row)
                 \<and> ruta_completa r = join route_sep parts
                 \<and> (parts_separable parts \<longrightarrow> split (ruta_completa r) route_sep = Inr parts))"
proof -
  obtain g0 es ss where cl0: "classify_columns df = (g0, es, ss)"
    by (cases "classify_columns df") auto
  from assms have "g0 \<noteq> None"
    using analyze_combined_no_general cl0 by (cases g0) auto
  then obtain g where cl: "classify_columns df = (Some g, es, ss)" using cl0 by auto
  from assms analyze_combined_details [OF cl]
  obtain row where row: "row \<in> set (rows df)"
    "row_record df g es ss (identify_installer_column df) row = Some r"
    by (auto simp: List.map_filter_def)
  let ?parts = "combined_parts df g es ss row"
  from row(2) have na: "\<not> isna (row_get df row g)" and len: "1 < length ?parts"
    and r: "r = make_record ?parts (installer_of df (identify_installer_column df) row)"
    by (auto simp: row_record_def Let_def split: if_splits)
  have ruta: "ruta_completa r = join route_sep ?parts" by (simp add: r make_record_def)
  have ne: "?parts \<noteq> []" using len by auto
  have rt: "parts_separable ?parts \<longrightarrow> split (ruta_completa r) route_sep = Inr ?parts"
    using split_join_roundtrip [OF ne] by (simp add: split_def ruta route_sep_def)
  have eq: "?parts = strip (py_str (row_get df row g)) # first_value df row es @ first_value df row ss"
    by (simp add: combined_parts_def)
  have "classify_columns df = (Some g, es, ss) \<and> row \<in> set (rows df)
           \<and> \<not> isna (row_get df row g)
           \<and> (1 < length ?parts
                 \<and> ?parts = strip (py_str (row_get df row g)) # first_value df row es @ first_value df row ss
                 \<and> r = make_record ?parts (installer_of df (identify_installer_column df) row)
                 \<and> ruta_completa r = join route_sep ?parts
                 \<and> (parts_separable ?parts \<longrightarrow> split (ruta_completa r) route_sep = Inr ?parts))"
    using cl row(1) na len eq r ruta rt by (intro conjI) assumption+
  then show ?thesis unfolding Let_def by blast
qed

lemma df_route_details: "snd (analyze_combined_categories df_route) = [r_route]"
  by code_simp

lemma df_route_classify:
  "classify_columns df_route = (Some ''categoria_general'', [''categoria_especifica''], [''subtipo_categoria''])"
  by code_simp

lemma df_route_parts:
  "combined_parts df_route ''categoria_general'' [''categoria_especifica''] [''subtipo_categoria'']
     [Txt ''Red'', Txt ''Slow'', Null] = [''Red'', ''Slow'']"
  by code_simp

lemma red_slow_separable: "parts_separable [''Red'', ''Slow'']"
  by code_simp

text \<open>The route \<open>Red | Slow\<close> of the frame \<open>df_route\<close> splits into its two parts.\<close>

theorem route_split_recovers_parts_witness:
  "r_route \<in> set (snd (analyze_combined_categories df_route)) \<and>
   split (ruta_completa r_route) route_sep = Inr [''Red'', ''Slow'']"
proof -
  have mem: "r_route \<in> set (snd (analyze_combined_categories df_route))"
    by (simp add: df_route_details)
  from route_split_recovers_parts [OF mem]
  obtain g es ss row where h: "classify_columns df_route = (Some g, es, ss)" "row \<in> set (rows df_route)"
    "parts_separable (combined_parts df_route g es ss row) \<longrightarrow>
       split (ruta_completa r_route) route_sep = Inr (combined_parts df_route g es ss row)"
    unfolding Let_def by blast
  from h(1) have g: "g = ''categoria_general''" "es = [''categoria_especifica'']" "ss = [''subtipo_categoria'']"
    by (simp_all add: df_route_classify)
  from h(2) have row: "row = [Txt ''Red'', Txt ''Slow'', Null]" by (simp add: df_route_def)
  from h(3) have "split (ruta_completa r_route) route_sep = Inr [''Red'', ''Slow'']"
    unfolding g row df_route_parts using red_slow_separable by simp
  with mem show ?thesis by simp
qed

text \<open>
  C2 as stated fails when a value contains the separator: the row with general category
  \<open>A | B\<close> and specific category \<open>C\<close> is built from two parts, and its route splits
  into three.
\<close>

theorem route_split_counterexample:
  "snd (analyze_combined_categories df_bar)
     = [\<lparr> categoria_general = ''A | B'', categoria_especifica = ''C'', subtipo = [],
          ruta_completa = ''A | B | C'', agente_instalador = ''Sin asignar'' \<rparr>]
   \<and> combined_parts df_bar ''categoria_general'' [''categoria_especifica''] [] [Txt ''A | B'', Txt ''C'']
       = [''A | B'', ''C'']
   \<and> split ''A | B | C'' route_sep = Inr [''A'', ''B'', ''C'']"
  by code_simp

end
